theory Spec2Isabelle
  imports Main "HOL-Library.AList"
begin

section \<open>JavaScript values and strings\<close>

text \<open>
  Values that can be kept in the scratch space \<open>session.data\<close>. Numbers are
  integer valued, with \<open>NaN\<close> apart; any object is a truthy opaque reference.
  \<open>JBuiltin name\<close> is the built-in object that \<open>Object.prototype\<close> holds under
  \<open>name\<close>: a function, and \<open>Object.prototype\<close> itself for \<open>__proto__\<close>.
\<close>

datatype jsval =
    JUndefined
  | JNull
  | JBool bool
  | JNum int
  | JNaN
  | JStr string
  | JObj nat
  | JBuiltin string



text \<open>
  The property names that every plain object inherits from \<open>Object.prototype\<close>.
  All of them are writable data properties holding functions, except \<open>__proto__\<close>,
  an accessor: reading it gives the object's prototype, assigning an object or
  \<open>null\<close> to it replaces the prototype, assigning anything else does nothing.
\<close>

definition objectPrototypeNames :: "string list" where
  "objectPrototypeNames =
     [''__proto__'', ''constructor'', ''hasOwnProperty'', ''isPrototypeOf'',
      ''propertyIsEnumerable'', ''toLocaleString'', ''toString'', ''valueOf'',
      ''__defineGetter__'', ''__defineSetter__'', ''__lookupGetter__'', ''__lookupSetter__'']"

text \<open>
  A string is a list of code units; a \<open>char\<close> is a code unit below 256. In that
  range \<open>String.prototype.trim\<close> removes TAB, LF, VT, FF, CR, SPACE and NBSP from
  both ends, and \<open>toLowerCase\<close> moves A-Z and the upper case letters
  U+00C0 .. U+00DE (without the multiplication sign U+00D7) by 32.
\<close>

definition isWhiteSpace :: "char \<Rightarrow> bool" where
  "isWhiteSpace c = ((of_char c :: nat) \<in> {9, 10, 11, 12, 13, 32, 160})"

definition trim :: "string \<Rightarrow> string" where
  "trim s = rev (dropWhile isWhiteSpace (rev (dropWhile isWhiteSpace s)))"

definition toLowerChar :: "char \<Rightarrow> char" where
  "toLowerChar c =
     (let n = (of_char c :: nat)
      in if (65 \<le> n \<and> n \<le> 90) \<or> (192 \<le> n \<and> n \<le> 222 \<and> n \<noteq> 215)
         then char_of (n + 32) else c)"

definition toLowerCase :: "string \<Rightarrow> string" where
  "toLowerCase s = map toLowerChar s"

definition startsWith :: "string \<Rightarrow> string \<Rightarrow> bool" where
  "startsWith s p = (take (length p) s = p)"

text \<open>\<open>v || 'en'\<close> on a value that is a string or absent.\<close>

definition orEn :: "string option \<Rightarrow> string" where
  "orEn l = (case l of None \<Rightarrow> ''en'' | Some s \<Rightarrow> if s = [] then ''en'' else s)"

section \<open>The message catalogue (src/utils/messageBuilder.js)\<close>

text \<open>
  The catalogue \<open>messages\<close> has an English and a Hindi table with the same keys.
  Its texts are not ASCII; a text is represented by the table and the key it is read
  from, which tells any two texts of the catalogue apart.
\<close>

datatype lang = EN | HI

datatype msgkey =
    welcome_message
  | language_selection
  | language_selection_error
  | age_question
  | age_error
  | main_menu
  | help_menu
  | not_implemented
  | generic_error
  | medication_add_start

datatype reply = Text lang msgkey

text \<open>\<open>messages[language]\<close>: the table of a language, absent for any other string.\<close>

definition messages :: "string \<Rightarrow> (msgkey \<Rightarrow> reply) option" where
  "messages language =
     (if language = ''en'' then Some (Text EN)
      else if language = ''hi'' then Some (Text HI)
      else None)"

text \<open>\<open>messages[language]?.key || messages.en.key\<close>; every entry is a non-empty string.\<close>

definition entry :: "string \<Rightarrow> msgkey \<Rightarrow> reply" where
  "entry language k = (case messages language of None \<Rightarrow> Text EN k | Some tbl \<Rightarrow> tbl k)"

definition buildLanguageSelection :: "bool \<Rightarrow> reply" where
  "buildLanguageSelection isError =
     (if isError then Text EN language_selection_error else Text EN language_selection)"

definition buildAgeQuestion :: "string \<Rightarrow> reply" where
  "buildAgeQuestion language = entry language age_question"

definition buildMainMenu :: "string \<Rightarrow> reply" where
  "buildMainMenu language = entry language main_menu"

definition buildHelpMenu :: "string \<Rightarrow> reply" where
  "buildHelpMenu language = entry language help_menu"

definition buildGenericError :: "string \<Rightarrow> reply" where
  "buildGenericError language = entry language generic_error"

definition buildNotImplementedYet :: "string \<Rightarrow> reply" where
  "buildNotImplementedYet language = entry language not_implemented"

definition buildMedicationAddStart :: "string \<Rightarrow> reply" where
  "buildMedicationAddStart language = entry language medication_add_start"

section \<open>The session store (src/services/sessionService.js)\<close>

text \<open>
  A session object. \<open>phoneNumber\<close> and \<open>data\<close> are optional because
  \<open>updateSession\<close> and \<open>setSessionData\<close> test for their absence; \<open>language\<close>
  is \<open>null\<close> (\<open>None\<close>) until it is chosen. The field \<open>id\<close> is named
  \<open>sessionId\<close> here. Timestamps are milliseconds, the resolution of
  \<open>toISOString\<close>.
\<close>

record session =
  sessionId :: string
  phoneNumber :: "string option"
  currentState :: string
  data :: "(string \<rightharpoonup> jsval) option"
  registrationInProgress :: bool
  language :: "string option"
  createdAt :: nat
  updatedAt :: nat
  expiresAt :: nat

text \<open>
  What the process reads from outside: the configured timeout in minutes, the reading
  of the \<open>k\<close>-th call of \<open>moment()\<close> and the \<open>k\<close>-th result of \<open>uuidv4()\<close>.
\<close>

record env =
  SESSION_TIMEOUT :: nat
  clock :: "nat \<Rightarrow> nat"
  uuidv4 :: "nat \<Rightarrow> string"

text \<open>
  Session objects are shared by reference between \<open>sessionStore\<close> and the
  handlers, so they live in a heap. \<open>sessionStore\<close> is a plain object used as a
  dictionary: its own properties map a phone number to a reference, in insertion
  order, and \<open>storeProto\<close> is the session object that an assignment
  \<open>sessionStore['__proto__'] = session\<close> has made its prototype (\<open>None\<close> while
  the prototype is still \<open>Object.prototype\<close>). \<open>reads\<close> and \<open>ids\<close> count the
  calls of \<open>moment()\<close> and \<open>uuidv4()\<close> made so far.
\<close>

record world =
  heap :: "nat \<Rightarrow> session"
  nextRef :: nat
  sessionStore :: "(string \<times> nat) list"
  storeProto :: "nat option"
  reads :: nat
  ids :: nat

datatype error = InvalidSession | TypeError

text \<open>
  Where the model stops following the code: \<open>Inherited name\<close> when the lookup
  \<open>sessionStore[name]\<close> yields a value that the store inherits and that is no
  session object, which the code then takes for the session; \<open>PrototypeReplaced\<close>
  when \<open>session.data['__proto__']\<close> is assigned an object or \<open>null\<close>. The world
  returned with either is the one reached at that point.
\<close>

datatype stray = Inherited string | PrototypeReplaced

definition moment :: "env \<Rightarrow> world \<Rightarrow> nat \<times> world" where
  "moment e w = (clock e (reads w), w\<lparr>reads := Suc (reads w)\<rparr>)"

definition newUuid :: "env \<Rightarrow> world \<Rightarrow> string \<times> world" where
  "newUuid e w = (uuidv4 e (ids w), w\<lparr>ids := Suc (ids w)\<rparr>)"

definition minutes :: "nat \<Rightarrow> nat" where
  "minutes n = 60000 * n"

text \<open>Assignment to fields of the object behind a reference.\<close>

definition modify :: "nat \<Rightarrow> (session \<Rightarrow> session) \<Rightarrow> world \<Rightarrow> world" where
  "modify r f w = w\<lparr>heap := (heap w)(r := f (heap w r))\<rparr>"

text \<open>
  \<open>sessionStore[phoneNumber] = session\<close>. The name \<open>__proto__\<close>, unless it is an
  own property already, reaches the inherited setter: the session becomes the store's
  prototype and no own property is added. Any other name gets an own property.
\<close>

definition storeAssign :: "string \<Rightarrow> nat \<Rightarrow> world \<Rightarrow> world" where
  "storeAssign phone r w =
     (if phone = ''__proto__'' \<and> map_of (sessionStore w) phone = None
      then w\<lparr>storeProto := Some r\<rparr>
      else w\<lparr>sessionStore := AList.update phone r (sessionStore w)\<rparr>)"

text \<open>
  The truthiness of the own property \<open>name\<close> of a session object, \<open>None\<close> when
  the object has no such property. The timestamps are non-empty ISO strings.
\<close>

definition sessionProperty :: "session \<Rightarrow> string \<Rightarrow> bool option" where
  "sessionProperty s name =
     (if name = ''id'' then Some (sessionId s \<noteq> [])
      else if name = ''phoneNumber''
        then (case phoneNumber s of None \<Rightarrow> None | Some p \<Rightarrow> Some (p \<noteq> []))
      else if name = ''currentState'' then Some (currentState s \<noteq> [])
      else if name = ''data'' then (case data s of None \<Rightarrow> None | Some d \<Rightarrow> Some True)
      else if name = ''registrationInProgress'' then Some (registrationInProgress s)
      else if name = ''language''
        then Some (case language s of None \<Rightarrow> False | Some l \<Rightarrow> l \<noteq> [])
      else if name = ''createdAt'' \<or> name = ''updatedAt'' \<or> name = ''expiresAt'' then Some True
      else None)"

text \<open>
  \<open>sessionStore[phoneNumber]\<close> followed by the test \<open>if (session)\<close>: an own
  property gives the session stored there; otherwise the name is looked up along the
  prototype chain, that is in the session that is the store's prototype, if there is
  one, and then in \<open>Object.prototype\<close>. \<open>Found\<close> is a session object, \<open>Stray\<close>
  a truthy value that is none, \<open>Missing\<close> no value or a falsy one.
\<close>

datatype found = Found nat | Stray | Missing

definition lookupStore :: "world \<Rightarrow> string \<Rightarrow> found" where
  "lookupStore w phone =
     (case map_of (sessionStore w) phone of
        Some r \<Rightarrow> Found r
      | None \<Rightarrow>
          (case storeProto w of
             None \<Rightarrow> if phone \<in> set objectPrototypeNames then Stray else Missing
           | Some p \<Rightarrow>
               if phone = ''__proto__'' then Found p
               else
                 (case sessionProperty (heap w p) phone of
                    Some t \<Rightarrow> if t then Stray else Missing
                  | None \<Rightarrow> if phone \<in> set objectPrototypeNames then Stray else Missing)))"

definition createSession :: "env \<Rightarrow> string \<Rightarrow> world \<Rightarrow> nat \<times> world" where
  "createSession e phone w0 =
     (let (sid, w1) = newUuid e w0;
          (t1, w2) = moment e w1;
          (t2, w3) = moment e w2;
          (t3, w4) = moment e w3;
          s = \<lparr>sessionId = sid, phoneNumber = Some phone, currentState = ''START'',
               data = Some Map.empty, registrationInProgress = False, language = None,
               createdAt = t1, updatedAt = t2,
               expiresAt = t3 + minutes (SESSION_TIMEOUT e)\<rparr>;
          r = nextRef w4
      in (r, storeAssign phone r (w4\<lparr>heap := (heap w4)(r := s), nextRef := Suc r\<rparr>)))"

definition getOrCreateSession :: "env \<Rightarrow> string \<Rightarrow> world \<Rightarrow> (stray + nat) \<times> world" where
  "getOrCreateSession e phone w0 =
     (case lookupStore w0 phone of
        Missing \<Rightarrow> (let (r, w1) = createSession e phone w0 in (Inr r, w1))
      | Stray \<Rightarrow> (Inl (Inherited phone), w0)
      | Found r \<Rightarrow>
          (let (now, w1) = moment e w0
           in if expiresAt (heap w1 r) < now
              then (let (r', w2) = createSession e phone w1 in (Inr r', w2))
              else
                (let (t1, w2) = moment e w1;
                     w3 = modify r (\<lambda>s. s\<lparr>expiresAt := t1 + minutes (SESSION_TIMEOUT e)\<rparr>) w2;
                     (t2, w4) = moment e w3;
                     w5 = modify r (\<lambda>s. s\<lparr>updatedAt := t2\<rparr>) w4
                 in (Inr r, storeAssign phone r w5))))"

text \<open>
  \<open>updateSession\<close> throws \<open>Error('Invalid session object')\<close> when its argument
  is absent (\<open>None\<close>) or \<open>session.phoneNumber\<close> is falsy: missing, or empty.
\<close>

definition updateSession :: "env \<Rightarrow> nat option \<Rightarrow> world \<Rightarrow> (error + nat) \<times> world" where
  "updateSession e sess w0 =
     (case sess of
        None \<Rightarrow> (Inl InvalidSession, w0)
      | Some r \<Rightarrow>
          (case phoneNumber (heap w0 r) of
             None \<Rightarrow> (Inl InvalidSession, w0)
           | Some phone \<Rightarrow>
               if phone = [] then (Inl InvalidSession, w0)
               else
                 (let (t1, w1) = moment e w0;
                      w2 = modify r (\<lambda>s. s\<lparr>updatedAt := t1\<rparr>) w1;
                      (t2, w3) = moment e w2;
                      w4 = modify r (\<lambda>s. s\<lparr>expiresAt := t2 + minutes (SESSION_TIMEOUT e)\<rparr>) w3
                  in (Inr r, storeAssign phone r w4))))"




text \<open>
  The \<open>forEach\<close> of \<open>cleanupExpiredSessions\<close> over the keys that
  \<open>Object.keys\<close> listed before the loop: the own properties of the store. Reading
  \<open>expiresAt\<close> of a key that is no longer in the store would be a \<open>TypeError\<close>.
\<close>

fun sweepKeys :: "nat \<Rightarrow> string list \<Rightarrow> nat \<Rightarrow> world \<Rightarrow> (error + nat) \<times> world" where
  "sweepKeys now [] count w = (Inr count, w)"
| "sweepKeys now (phone # ps) count w =
     (case map_of (sessionStore w) phone of
        None \<Rightarrow> (Inl TypeError, w)
      | Some r \<Rightarrow>
          if expiresAt (heap w r) < now
          then sweepKeys now ps (count + 1)
                 (w\<lparr>sessionStore := AList.delete phone (sessionStore w)\<rparr>)
          else sweepKeys now ps count w)"

definition cleanupExpiredSessions :: "env \<Rightarrow> world \<Rightarrow> (error + nat) \<times> world" where
  "cleanupExpiredSessions e w0 =
     (let (now, w1) = moment e w0
      in sweepKeys now (map fst (sessionStore w1)) 0 w1)"

section \<open>The webhook controller's flows\<close>

text \<open>The domain user record, as far as the controller reads it: \<open>user.language\<close>.\<close>

record user =
  user_phone :: string
  user_language :: "string option"

text \<open>A value used as a property key: \<open>messages[null]\<close> reads the key \<open>"null"\<close>.\<close>

definition propertyKey :: "string option \<Rightarrow> string" where
  "propertyKey l = (case l of None \<Rightarrow> ''null'' | Some s \<Rightarrow> s)"

text \<open>
  The end of the case \<open>REGISTRATION_LANGUAGE\<close> of \<open>handleRegistrationFlow\<close>,
  reached once \<open>session.language\<close> is assigned.
\<close>

definition askAge :: "env \<Rightarrow> nat \<Rightarrow> world \<Rightarrow> (error + reply) \<times> world" where
  "askAge e r w0 =
     (let w1 = modify r (\<lambda>s. s\<lparr>currentState := ''REGISTRATION_AGE''\<rparr>) w0;
          (res, w2) = updateSession e (Some r) w1
      in case res of
           Inl err \<Rightarrow> (Inl err, w2)
         | Inr _ \<Rightarrow> (Inr (buildAgeQuestion (propertyKey (language (heap w2 r)))), w2))"

definition handleRegistrationFlow ::
  "env \<Rightarrow> nat \<Rightarrow> string \<Rightarrow> string \<Rightarrow> world \<Rightarrow> (error + reply) \<times> world" where
  "handleRegistrationFlow e r message profileName w0 =
     (if currentState (heap w0 r) = ''REGISTRATION_START'' then
        (let w1 = modify r (\<lambda>s. s\<lparr>currentState := ''REGISTRATION_LANGUAGE''\<rparr>) w0;
             (res, w2) = updateSession e (Some r) w1
         in case res of
              Inl err \<Rightarrow> (Inl err, w2)
            | Inr _ \<Rightarrow> (Inr (buildLanguageSelection False), w2))
      else if currentState (heap w0 r) = ''REGISTRATION_LANGUAGE'' then
        (let languageChoice = toLowerCase (trim message)
         in if languageChoice = ''1'' \<or> languageChoice = ''english''
            then askAge e r (modify r (\<lambda>s. s\<lparr>language := Some ''en''\<rparr>) w0)
            else if languageChoice = ''2'' \<or> languageChoice = ''hindi''
            then askAge e r (modify r (\<lambda>s. s\<lparr>language := Some ''hi''\<rparr>) w0)
            else (Inr (buildLanguageSelection True), w0))
      else (Inr (buildGenericError (orEn (language (heap w0 r)))), w0))"

definition handleUserCommands ::
  "env \<Rightarrow> user \<Rightarrow> nat \<Rightarrow> string \<Rightarrow> string \<Rightarrow> world \<Rightarrow> (error + reply) \<times> world" where
  "handleUserCommands e u r message phone w0 =
     (if startsWith message ''for:''
      then (Inr (buildNotImplementedYet (orEn (user_language u))), w0)
      else
        (let command = toLowerCase (trim message)
         in if command = ''help'' then (Inr (buildHelpMenu (orEn (user_language u))), w0)
            else if command = ''add medication'' \<or> command = ''med'' \<or> command = ''1'' then
              (let w1 = modify r (\<lambda>s. s\<lparr>currentState := ''MEDICATION_ADD_START''\<rparr>) w0;
                   (res, w2) = updateSession e (Some r) w1
               in case res of
                    Inl err \<Rightarrow> (Inl err, w2)
                  | Inr _ \<Rightarrow> (Inr (buildMedicationAddStart (orEn (user_language u))), w2))
            else (Inr (buildMainMenu (orEn (user_language u))), w0)))"

section \<open>The proxy command as the specification words it\<close>

text \<open>
  The specification's form of a caregiver proxy command is
  \<open>for:<targetName> <command>\<close>: the target is what follows the prefix up to the
  first space, the inner command is the rest. This function follows the
  specification's words; the source has no counterpart of it.
\<close>

definition spec_parseProxy :: "string \<Rightarrow> (string \<times> string) option" where
  "spec_parseProxy message =
     (if startsWith message ''for:''
      then (let rest = drop 4 message
            in Some (takeWhile (\<lambda>c. c \<noteq> CHR '' '') rest,
                     drop 1 (dropWhile (\<lambda>c. c \<noteq> CHR '' '') rest)))
      else None)"

section \<open>Scenarios and example inputs\<close>


text \<open>The same input handled \<open>n\<close> times in a row by \<open>handleRegistrationFlow\<close>.\<close>

fun replay :: "nat \<Rightarrow> env \<Rightarrow> nat \<Rightarrow> string \<Rightarrow> string \<Rightarrow> world \<Rightarrow> world" where
  "replay 0 e r message profileName w = w"
| "replay (Suc n) e r message profileName w =
     replay n e r message profileName (snd (handleRegistrationFlow e r message profileName w))"

text \<open>A clock that advances by a millisecond at each reading, and one that stands still.\<close>

definition tickingEnv :: env where
  "tickingEnv = \<lparr>SESSION_TIMEOUT = 30, clock = (\<lambda>k. 1000 + k), uuidv4 = (\<lambda>k. ''uuid'')\<rparr>"

definition sameInstantEnv :: env where
  "sameInstantEnv = \<lparr>SESSION_TIMEOUT = 30, clock = (\<lambda>k. 1000), uuidv4 = (\<lambda>k. ''uuid'')\<rparr>"

text \<open>A clock that reads two hours later from its \<open>n\<close>-th reading on.\<close>

definition lateEnv :: "nat \<Rightarrow> env" where
  "lateEnv n = \<lparr>SESSION_TIMEOUT = 30, clock = (\<lambda>k. if k < n then 1000 + k else 7200000 + k),
                uuidv4 = (\<lambda>k. ''uuid'')\<rparr>"

definition exampleSession :: "string \<Rightarrow> string option \<Rightarrow> session" where
  "exampleSession st phone =
     \<lparr>sessionId = ''uuid'', phoneNumber = phone, currentState = st,
      data = Some Map.empty, registrationInProgress = True, language = None,
      createdAt = 0, updatedAt = 10, expiresAt = 1800000\<rparr>"

text \<open>A world with one session, in the given state and with the given phone number field.\<close>

definition exampleWorld :: "string \<Rightarrow> string option \<Rightarrow> world" where
  "exampleWorld st phone =
     \<lparr>heap = (\<lambda>r. exampleSession st phone), nextRef = 1,
      sessionStore = [(''+911234567890'', 0)], storeProto = None, reads = 0, ids = 1\<rparr>"

definition emptyWorld :: world where
  "emptyWorld =
     \<lparr>heap = (\<lambda>r. exampleSession ''START'' None), nextRef = 0, sessionStore = [],
      storeProto = None, reads = 0, ids = 0\<rparr>"

definition exampleUser :: user where
  "exampleUser = \<lparr>user_phone = ''+911234567890'', user_language = Some ''hi''\<rparr>"

section \<open>Facts about the store operations\<close>

lemmas norm_defs = toLowerCase_def trim_def isWhiteSpace_def toLowerChar_def char_of_eq_iff

lemmas example_defs = exampleWorld_def exampleSession_def emptyWorld_def exampleUser_def
  tickingEnv_def sameInstantEnv_def lateEnv_def

lemmas catalogue_defs = entry_def messages_def buildLanguageSelection_def buildAgeQuestion_def
  buildMainMenu_def buildHelpMenu_def buildGenericError_def buildNotImplementedYet_def
  buildMedicationAddStart_def orEn_def propertyKey_def

lemma storeAssign_fields [simp]:
  "heap (storeAssign phone r w) = heap w"
  "nextRef (storeAssign phone r w) = nextRef w"
  "reads (storeAssign phone r w) = reads w"
  "ids (storeAssign phone r w) = ids w"
  by (simp_all add: storeAssign_def)



lemma updateSession_ok:
  assumes "phoneNumber (heap w r) = Some phone" and "phone \<noteq> []"
  shows "updateSession e (Some r) w =
           (Inr r,
            storeAssign phone r
              (w\<lparr>reads := Suc (Suc (reads w)),
                 heap := (heap w)(r := (heap w r)\<lparr>updatedAt := clock e (reads w),
                     expiresAt := clock e (Suc (reads w)) + minutes (SESSION_TIMEOUT e)\<rparr>)\<rparr>))"
  using assms by (simp add: updateSession_def moment_def modify_def Let_def)

lemma updateSession_fails:
  assumes "phoneNumber (heap w r) = None \<or> phoneNumber (heap w r) = Some []"
  shows "updateSession e (Some r) w = (Inl InvalidSession, w)"
  using assms by (auto simp add: updateSession_def)

lemma phoneNumber_cases:
  "(\<exists>phone. phoneNumber (heap w r) = Some phone \<and> phone \<noteq> []) \<or>
   phoneNumber (heap w r) = None \<or> phoneNumber (heap w r) = Some []"
  by (cases "phoneNumber (heap w r)") auto

lemma askAge_session:
  "currentState (heap (snd (askAge e r w)) r) = ''REGISTRATION_AGE'' \<and>
   language (heap (snd (askAge e r w)) r) = language (heap w r)"
  using phoneNumber_cases [of "modify r (\<lambda>s. s\<lparr>currentState := ''REGISTRATION_AGE''\<rparr>) w" r]
  by (auto simp add: askAge_def updateSession_ok updateSession_fails modify_def)

lemma askAge_reply:
  assumes "phoneNumber (heap w r) = Some phone" and "phone \<noteq> []"
  shows "fst (askAge e r w) = Inr (buildAgeQuestion (propertyKey (language (heap w r))))"
  using assms by (simp add: askAge_def updateSession_def moment_def modify_def)

section \<open>Registration: the language step\<close>

text \<open>
  C1. In state \<open>REGISTRATION_LANGUAGE\<close>, a text that after \<open>trim\<close> and
  \<open>toLowerCase\<close> is \<open>1\<close> or \<open>english\<close> sets the session's language to
  \<open>en\<close> and its state to \<open>REGISTRATION_AGE\<close>; \<open>2\<close> or \<open>hindi\<close> sets
  the language to \<open>hi\<close> and the state to \<open>REGISTRATION_AGE\<close>; any other text
  leaves everything as it was and is answered by the language-selection error prompt.
  When the session has a phone number, the reply to a valid choice is the age question
  in the chosen language.
\<close>

theorem C1_language_selection:
  assumes "currentState (heap w r) = ''REGISTRATION_LANGUAGE''"
  shows "(toLowerCase (trim message) = ''1'' \<or> toLowerCase (trim message) = ''english'' \<longrightarrow>
            language (heap (snd (handleRegistrationFlow e r message profileName w)) r) = Some ''en'' \<and>
            currentState (heap (snd (handleRegistrationFlow e r message profileName w)) r) =
              ''REGISTRATION_AGE'' \<and>
            (phoneNumber (heap w r) \<noteq> None \<and> phoneNumber (heap w r) \<noteq> Some [] \<longrightarrow>
               fst (handleRegistrationFlow e r message profileName w) = Inr (Text EN age_question))) \<and>
         (toLowerCase (trim message) = ''2'' \<or> toLowerCase (trim message) = ''hindi'' \<longrightarrow>
            language (heap (snd (handleRegistrationFlow e r message profileName w)) r) = Some ''hi'' \<and>
            currentState (heap (snd (handleRegistrationFlow e r message profileName w)) r) =
              ''REGISTRATION_AGE'' \<and>
            (phoneNumber (heap w r) \<noteq> None \<and> phoneNumber (heap w r) \<noteq> Some [] \<longrightarrow>
               fst (handleRegistrationFlow e r message profileName w) = Inr (Text HI age_question))) \<and>
         (toLowerCase (trim message) \<notin> {''1'', ''english'', ''2'', ''hindi''} \<longrightarrow>
            handleRegistrationFlow e r message profileName w =
              (Inr (Text EN language_selection_error), w))"
proof -
  have reply: "fst (askAge e r (modify r (\<lambda>s. s\<lparr>language := Some l\<rparr>) w)) =
                 Inr (buildAgeQuestion l)"
    if "phoneNumber (heap w r) \<noteq> None \<and> phoneNumber (heap w r) \<noteq> Some []" for l
  proof -
    from that obtain phone where "phoneNumber (heap w r) = Some phone" and "phone \<noteq> []"
      by (cases "phoneNumber (heap w r)") auto
    then show ?thesis
      using askAge_reply [of "modify r (\<lambda>s. s\<lparr>language := Some l\<rparr>) w" r phone e]
      by (simp add: modify_def propertyKey_def)
  qed
  show ?thesis
    using assms reply [of "''en''"] reply [of "''hi''"]
    by (simp add: handleRegistrationFlow_def askAge_session modify_def catalogue_defs)
qed

theorem C1_language_selection_witness:
  "currentState (heap (exampleWorld ''REGISTRATION_LANGUAGE'' (Some ''+911234567890'')) 0) =
     ''REGISTRATION_LANGUAGE'' \<and>
   toLowerCase (trim ''1'') = ''1'' \<and>
   language (heap (snd (handleRegistrationFlow tickingEnv 0 ''1'' ''Asha''
     (exampleWorld ''REGISTRATION_LANGUAGE'' (Some ''+911234567890'')))) 0) = Some ''en'' \<and>
   toLowerCase (trim '' Hindi '') = ''hindi'' \<and>
   language (heap (snd (handleRegistrationFlow tickingEnv 0 '' Hindi '' ''Asha''
     (exampleWorld ''REGISTRATION_LANGUAGE'' (Some ''+911234567890'')))) 0) = Some ''hi'' \<and>
   currentState (heap (snd (handleRegistrationFlow tickingEnv 0 '' Hindi '' ''Asha''
     (exampleWorld ''REGISTRATION_LANGUAGE'' (Some ''+911234567890'')))) 0) = ''REGISTRATION_AGE'' \<and>
   fst (handleRegistrationFlow tickingEnv 0 '' Hindi '' ''Asha''
     (exampleWorld ''REGISTRATION_LANGUAGE'' (Some ''+911234567890''))) = Inr (Text HI age_question) \<and>
   toLowerCase (trim ''banana'') \<notin> {''1'', ''english'', ''2'', ''hindi''} \<and>
   handleRegistrationFlow tickingEnv 0 ''banana'' ''Asha''
     (exampleWorld ''REGISTRATION_LANGUAGE'' (Some ''+911234567890'')) =
     (Inr (Text EN language_selection_error),
      exampleWorld ''REGISTRATION_LANGUAGE'' (Some ''+911234567890''))"
proof -
  have st: "currentState (heap (exampleWorld ''REGISTRATION_LANGUAGE'' (Some ''+911234567890'')) 0) =
              ''REGISTRATION_LANGUAGE''"
    by (simp add: example_defs)
  have ph: "phoneNumber (heap (exampleWorld ''REGISTRATION_LANGUAGE'' (Some ''+911234567890'')) 0) =
              Some ''+911234567890''"
    by (simp add: example_defs)
  have n1: "toLowerCase (trim ''1'') = ''1''"
    and n2: "toLowerCase (trim '' Hindi '') = ''hindi''"
    and n3: "toLowerCase (trim ''banana'') = ''banana''"
    by (simp_all add: norm_defs)
  show ?thesis
    using st ph n1 n2 n3
      C1_language_selection [OF st, of "''1''" tickingEnv "''Asha''"]
      C1_language_selection [OF st, of "'' Hindi ''" tickingEnv "''Asha''"]
      C1_language_selection [OF st, of "''banana''" tickingEnv "''Asha''"]
    by simp
qed

section \<open>Registration: the age step\<close>

lemma registration_default_branch:
  assumes "currentState (heap w r) \<noteq> ''REGISTRATION_START''"
    and "currentState (heap w r) \<noteq> ''REGISTRATION_LANGUAGE''"
  shows "handleRegistrationFlow e r message profileName w =
           (Inr (buildGenericError (orEn (language (heap w r)))), w)"
  using assms by (simp add: handleRegistrationFlow_def)

text \<open>
  C2, as the claim states it, fails: \<open>handleRegistrationFlow\<close> has no case for
  \<open>REGISTRATION_AGE\<close>. The text \<open>42\<close> leaves the state at
  \<open>REGISTRATION_AGE\<close> and the data empty, and both \<open>42\<close> and \<open>abc\<close> are
  answered by the generic error, not by the age-range error.
\<close>

theorem C2_age_counterexample:
  "currentState (heap (exampleWorld ''REGISTRATION_AGE'' (Some ''+911234567890'')) 0) =
     ''REGISTRATION_AGE'' \<and>
   currentState (heap (snd (handleRegistrationFlow tickingEnv 0 ''42'' ''Asha''
     (exampleWorld ''REGISTRATION_AGE'' (Some ''+911234567890'')))) 0) = ''REGISTRATION_AGE'' \<and>
   data (heap (snd (handleRegistrationFlow tickingEnv 0 ''42'' ''Asha''
     (exampleWorld ''REGISTRATION_AGE'' (Some ''+911234567890'')))) 0) = Some Map.empty \<and>
   fst (handleRegistrationFlow tickingEnv 0 ''42'' ''Asha''
     (exampleWorld ''REGISTRATION_AGE'' (Some ''+911234567890''))) = Inr (Text EN generic_error) \<and>
   fst (handleRegistrationFlow tickingEnv 0 ''abc'' ''Asha''
     (exampleWorld ''REGISTRATION_AGE'' (Some ''+911234567890''))) \<noteq> Inr (Text EN age_error)"
  by (simp add: handleRegistrationFlow_def example_defs catalogue_defs)

text \<open>
  C2, amended. In state \<open>REGISTRATION_AGE\<close> every inbound text, an integer in
  [1,120] or not, leaves the whole world unchanged (the session's state, language and
  data, and the store) and is answered by the generic error in the session's language,
  \<open>en\<close> when none is set; replaying the text any number of times changes nothing.
\<close>

theorem C2_age_step_unchanged:
  assumes "currentState (heap w r) = ''REGISTRATION_AGE''"
  shows "handleRegistrationFlow e r message profileName w =
           (Inr (buildGenericError (orEn (language (heap w r)))), w) \<and>
         replay n e r message profileName w = w"
proof -
  have one: "handleRegistrationFlow e r message profileName w =
               (Inr (buildGenericError (orEn (language (heap w r)))), w)"
    using assms by (simp add: registration_default_branch)
  have "replay n e r message profileName w = w"
    by (induction n) (simp_all add: one)
  with one show ?thesis by simp
qed

theorem C2_age_step_unchanged_witness:
  "currentState (heap (exampleWorld ''REGISTRATION_AGE'' (Some ''+911234567890'')) 0) =
     ''REGISTRATION_AGE'' \<and>
   handleRegistrationFlow tickingEnv 0 ''abc'' ''Asha''
       (exampleWorld ''REGISTRATION_AGE'' (Some ''+911234567890'')) =
     (Inr (Text EN generic_error), exampleWorld ''REGISTRATION_AGE'' (Some ''+911234567890'')) \<and>
   replay 3 tickingEnv 0 ''abc'' ''Asha''
       (exampleWorld ''REGISTRATION_AGE'' (Some ''+911234567890'')) =
     exampleWorld ''REGISTRATION_AGE'' (Some ''+911234567890'')"
proof -
  have st: "currentState (heap (exampleWorld ''REGISTRATION_AGE'' (Some ''+911234567890'')) 0) =
              ''REGISTRATION_AGE''"
    by (simp add: example_defs)
  have lg: "buildGenericError (orEn (language
              (heap (exampleWorld ''REGISTRATION_AGE'' (Some ''+911234567890'')) 0))) =
            Text EN generic_error"
    by (simp add: example_defs catalogue_defs)
  show ?thesis
    using st lg C2_age_step_unchanged [OF st, of tickingEnv "''abc''" "''Asha''" 3]
    by simp
qed

section \<open>The command dispatcher\<close>

text \<open>
  C3, as the claim states it, fails: the dispatcher recognises the prefix \<open>for:\<close>
  and stops there. Its outcome for \<open>for:Mom taken\<close> is the not-implemented text and
  the unchanged world, the same as for \<open>for:Dad skipped\<close>, although the two
  messages name different targets and inner commands: the outcome carries neither.
\<close>

theorem C3_proxy_counterexample:
  "spec_parseProxy ''for:Mom taken'' = Some (''Mom'', ''taken'') \<and>
   spec_parseProxy ''for:Dad skipped'' = Some (''Dad'', ''skipped'') \<and>
   handleUserCommands tickingEnv exampleUser 0 ''for:Mom taken'' ''+911234567890''
       (exampleWorld ''IDLE'' (Some ''+911234567890'')) =
     (Inr (Text HI not_implemented), exampleWorld ''IDLE'' (Some ''+911234567890'')) \<and>
   handleUserCommands tickingEnv exampleUser 0 ''for:Dad skipped'' ''+911234567890''
       (exampleWorld ''IDLE'' (Some ''+911234567890'')) =
     handleUserCommands tickingEnv exampleUser 0 ''for:Mom taken'' ''+911234567890''
       (exampleWorld ''IDLE'' (Some ''+911234567890''))"
  by (simp add: spec_parseProxy_def handleUserCommands_def startsWith_def example_defs
      catalogue_defs)

text \<open>
  C3, amended. For every registered user, a message that starts with the literal
  prefix \<open>for:\<close> is recognised as a proxy command and answered by the
  not-implemented text in the user's language (\<open>en\<close> when unset), without any
  change to the caller's session or to the store; no target name and no inner command
  are extracted.
\<close>

theorem C3_proxy_recognised:
  assumes "startsWith message ''for:''"
  shows "handleUserCommands e u r message phone w =
           (Inr (buildNotImplementedYet (orEn (user_language u))), w)"
  using assms by (simp add: handleUserCommands_def)

theorem C3_proxy_recognised_witness:
  "startsWith ''for:Mom taken'' ''for:'' \<and>
   handleUserCommands tickingEnv exampleUser 0 ''for:Mom taken'' ''+911234567890''
       (exampleWorld ''IDLE'' (Some ''+911234567890'')) =
     (Inr (Text HI not_implemented), exampleWorld ''IDLE'' (Some ''+911234567890''))"
proof -
  have p: "startsWith ''for:Mom taken'' ''for:''"
    by (simp add: startsWith_def)
  have l: "buildNotImplementedYet (orEn (user_language exampleUser)) = Text HI not_implemented"
    by (simp add: example_defs catalogue_defs)
  show ?thesis
    using p l C3_proxy_recognised [OF p, of tickingEnv exampleUser 0 "''+911234567890''"
        "exampleWorld ''IDLE'' (Some ''+911234567890'')"]
    by simp
qed

text \<open>
  C8. For every registered user, a message that is not a proxy command and whose
  normalised form is none of the commands of the table is never an error: the dispatcher
  answers with the main menu and changes nothing. The menu is the Hindi one when the
  user's language is \<open>hi\<close>, and the English one otherwise, in particular when the
  language is unset.
\<close>

theorem C8_unmatched_main_menu:
  assumes "\<not> startsWith message ''for:''"
    and "toLowerCase (trim message) \<notin> {''help'', ''add medication'', ''med'', ''1''}"
  shows "handleUserCommands e u r message phone w =
           (Inr (buildMainMenu (orEn (user_language u))), w) \<and>
         buildMainMenu (orEn (user_language u)) =
           (if user_language u = Some ''hi'' then Text HI main_menu else Text EN main_menu)"
proof -
  have "buildMainMenu (orEn (user_language u)) =
          (if user_language u = Some ''hi'' then Text HI main_menu else Text EN main_menu)"
    by (cases "user_language u") (auto simp add: catalogue_defs)
  with assms show ?thesis
    by (simp add: handleUserCommands_def)
qed

theorem C8_unmatched_main_menu_witness:
  "\<not> startsWith ''  Good Morning '' ''for:'' \<and>
   toLowerCase (trim ''  Good Morning '') \<notin> {''help'', ''add medication'', ''med'', ''1''} \<and>
   handleUserCommands tickingEnv (exampleUser\<lparr>user_language := None\<rparr>) 0 ''  Good Morning ''
       ''+911234567890'' (exampleWorld ''IDLE'' (Some ''+911234567890'')) =
     (Inr (Text EN main_menu), exampleWorld ''IDLE'' (Some ''+911234567890'')) \<and>
   handleUserCommands tickingEnv exampleUser 0 ''  Good Morning ''
       ''+911234567890'' (exampleWorld ''IDLE'' (Some ''+911234567890'')) =
     (Inr (Text HI main_menu), exampleWorld ''IDLE'' (Some ''+911234567890''))"
proof -
  have p: "\<not> startsWith ''  Good Morning '' ''for:''"
    by (simp add: startsWith_def)
  have n: "toLowerCase (trim ''  Good Morning '') = ''good morning''"
    by (simp add: norm_defs)
  then have c: "toLowerCase (trim ''  Good Morning '') \<notin>
                  {''help'', ''add medication'', ''med'', ''1''}"
    by simp
  have l: "user_language exampleUser = Some ''hi''"
    by (simp add: example_defs)
  show ?thesis
    using p c l
      C8_unmatched_main_menu [OF p c, of tickingEnv "exampleUser\<lparr>user_language := None\<rparr>" 0
        "''+911234567890''" "exampleWorld ''IDLE'' (Some ''+911234567890'')"]
      C8_unmatched_main_menu [OF p c, of tickingEnv exampleUser 0
        "''+911234567890''" "exampleWorld ''IDLE'' (Some ''+911234567890'')"]
    by simp
qed

text \<open>
  C9. For every registered user and session, the inputs \<open>1\<close>, \<open>med\<close> and
  \<open>add medication\<close> have the same outcome: the same reply and the same world
  afterwards, in which the session's state is \<open>MEDICATION_ADD_START\<close>. When the
  session has a phone number the reply is the medication-add start text in the user's
  language.
\<close>

theorem C9_aliases:
  "handleUserCommands e u r ''med'' phone w = handleUserCommands e u r ''1'' phone w \<and>
   handleUserCommands e u r ''add medication'' phone w = handleUserCommands e u r ''1'' phone w \<and>
   currentState (heap (snd (handleUserCommands e u r ''1'' phone w)) r) = ''MEDICATION_ADD_START'' \<and>
   (phoneNumber (heap w r) \<noteq> None \<and> phoneNumber (heap w r) \<noteq> Some [] \<longrightarrow>
      fst (handleUserCommands e u r ''1'' phone w) =
        Inr (buildMedicationAddStart (orEn (user_language u))))"
proof -
  let ?w1 = "modify r (\<lambda>s. s\<lparr>currentState := ''MEDICATION_ADD_START''\<rparr>) w"
  have n: "toLowerCase (trim ''1'') = ''1''" "toLowerCase (trim ''med'') = ''med''"
    "toLowerCase (trim ''add medication'') = ''add medication''"
    by (simp_all add: norm_defs)
  have p: "\<not> startsWith ''1'' ''for:''" "\<not> startsWith ''med'' ''for:''"
    "\<not> startsWith ''add medication'' ''for:''"
    by (simp_all add: startsWith_def)
  have same: "handleUserCommands e u r ''med'' phone w = handleUserCommands e u r ''1'' phone w"
    "handleUserCommands e u r ''add medication'' phone w = handleUserCommands e u r ''1'' phone w"
    by (simp_all add: handleUserCommands_def n p)
  have one: "handleUserCommands e u r ''1'' phone w =
               (case updateSession e (Some r) ?w1 of
                  (Inl err, w2) \<Rightarrow> (Inl err, w2)
                | (Inr x, w2) \<Rightarrow> (Inr (buildMedicationAddStart (orEn (user_language u))), w2))"
    by (simp add: handleUserCommands_def n p split: prod.splits sum.splits)
  have st: "currentState (heap (snd (handleUserCommands e u r ''1'' phone w)) r) =
              ''MEDICATION_ADD_START''"
    using phoneNumber_cases [of ?w1 r]
    by (auto simp add: one updateSession_ok updateSession_fails modify_def)
  have rp: "fst (handleUserCommands e u r ''1'' phone w) =
              Inr (buildMedicationAddStart (orEn (user_language u)))"
    if "phoneNumber (heap w r) \<noteq> None \<and> phoneNumber (heap w r) \<noteq> Some []"
  proof -
    from that obtain ph where "phoneNumber (heap ?w1 r) = Some ph" and "ph \<noteq> []"
      by (cases "phoneNumber (heap w r)") (auto simp add: modify_def)
    then show ?thesis
      by (simp add: one updateSession_ok)
  qed
  from same st rp show ?thesis by simp
qed

theorem C9_aliases_witness:
  "phoneNumber (heap (exampleWorld ''IDLE'' (Some ''+911234567890'')) 0) \<noteq> None \<and>
   phoneNumber (heap (exampleWorld ''IDLE'' (Some ''+911234567890'')) 0) \<noteq> Some [] \<and>
   fst (handleUserCommands tickingEnv exampleUser 0 ''1'' ''+911234567890''
          (exampleWorld ''IDLE'' (Some ''+911234567890''))) = Inr (Text HI medication_add_start) \<and>
   fst (handleUserCommands tickingEnv exampleUser 0 ''med'' ''+911234567890''
          (exampleWorld ''IDLE'' (Some ''+911234567890''))) = Inr (Text HI medication_add_start) \<and>
   currentState (heap (snd (handleUserCommands tickingEnv exampleUser 0 ''add medication''
          ''+911234567890'' (exampleWorld ''IDLE'' (Some ''+911234567890'')))) 0) =
     ''MEDICATION_ADD_START''"
proof -
  have ph: "phoneNumber (heap (exampleWorld ''IDLE'' (Some ''+911234567890'')) 0) \<noteq> None \<and>
            phoneNumber (heap (exampleWorld ''IDLE'' (Some ''+911234567890'')) 0) \<noteq> Some []"
    by (simp add: example_defs)
  have l: "buildMedicationAddStart (orEn (user_language exampleUser)) = Text HI medication_add_start"
    by (simp add: example_defs catalogue_defs)
  show ?thesis
    using ph l C9_aliases [of tickingEnv exampleUser 0 "''+911234567890''"
        "exampleWorld ''IDLE'' (Some ''+911234567890'')"]
    by simp
qed

section \<open>The session store\<close>

lemma createSession_result:
  "createSession e phone w =
     (nextRef w,
      storeAssign phone (nextRef w)
        (w\<lparr>ids := Suc (ids w),
           reads := Suc (Suc (Suc (reads w))),
           heap := (heap w)(nextRef w :=
             \<lparr>sessionId = uuidv4 e (ids w), phoneNumber = Some phone, currentState = ''START'',
              data = Some Map.empty, registrationInProgress = False, language = None,
              createdAt = clock e (reads w), updatedAt = clock e (Suc (reads w)),
              expiresAt = clock e (Suc (Suc (reads w))) + minutes (SESSION_TIMEOUT e)\<rparr>),
           nextRef := Suc (nextRef w)\<rparr>))"
  by (simp add: createSession_def newUuid_def moment_def Let_def)

lemma lookupStore_own:
  assumes "map_of (sessionStore w) phone = Some r"
  shows "lookupStore w phone = Found r"
  using assms by (simp add: lookupStore_def)


lemma getOrCreateSession_missing:
  assumes "lookupStore w phone = Missing"
  shows "getOrCreateSession e phone w =
           (Inr (fst (createSession e phone w)), snd (createSession e phone w))"
  using assms by (simp add: getOrCreateSession_def split_beta)

lemma getOrCreateSession_expired:
  assumes "lookupStore w phone = Found r" and "expiresAt (heap w r) < clock e (reads w)"
  shows "getOrCreateSession e phone w =
           (Inr (fst (createSession e phone (w\<lparr>reads := Suc (reads w)\<rparr>))),
            snd (createSession e phone (w\<lparr>reads := Suc (reads w)\<rparr>)))"
  using assms by (simp add: getOrCreateSession_def moment_def split_beta)

lemma getOrCreateSession_existing:
  assumes "lookupStore w phone = Found r"
    and "\<not> expiresAt (heap w r) < clock e (reads w)"
  shows "getOrCreateSession e phone w =
           (Inr r,
            storeAssign phone r
              (w\<lparr>reads := Suc (Suc (Suc (reads w))),
                 heap := (heap w)(r := (heap w r)\<lparr>
                   expiresAt := clock e (Suc (reads w)) + minutes (SESSION_TIMEOUT e),
                   updatedAt := clock e (Suc (Suc (reads w)))\<rparr>)\<rparr>))"
  using assms by (simp add: getOrCreateSession_def moment_def modify_def Let_def)





text \<open>
  C5, as the claim states it, fails: a successful \<open>updateSession\<close> writes the
  clock's reading, which need not have moved. A session created and then updated within
  the same millisecond keeps its \<open>updatedAt\<close> and its \<open>expiresAt\<close>.
\<close>

theorem C5_same_instant_counterexample:
  "phoneNumber (heap (snd (getOrCreateSession sameInstantEnv ''+911234567890'' emptyWorld)) 0) =
     Some ''+911234567890'' \<and>
   fst (updateSession sameInstantEnv (Some 0)
          (snd (getOrCreateSession sameInstantEnv ''+911234567890'' emptyWorld))) = Inr 0 \<and>
   \<not> updatedAt (heap (snd (getOrCreateSession sameInstantEnv ''+911234567890'' emptyWorld)) 0)
       < updatedAt (heap (snd (updateSession sameInstantEnv (Some 0)
           (snd (getOrCreateSession sameInstantEnv ''+911234567890'' emptyWorld)))) 0) \<and>
   \<not> expiresAt (heap (snd (getOrCreateSession sameInstantEnv ''+911234567890'' emptyWorld)) 0)
       < expiresAt (heap (snd (updateSession sameInstantEnv (Some 0)
           (snd (getOrCreateSession sameInstantEnv ''+911234567890'' emptyWorld)))) 0)"
proof -
  have m: "lookupStore emptyWorld ''+911234567890'' = Missing"
    by (simp add: lookupStore_def objectPrototypeNames_def example_defs)
  have c: "snd (getOrCreateSession sameInstantEnv ''+911234567890'' emptyWorld) =
             snd (createSession sameInstantEnv ''+911234567890'' emptyWorld)"
    by (simp add: getOrCreateSession_missing [OF m])
  have n: "nextRef emptyWorld = 0"
    by (simp add: example_defs)
  have p: "phoneNumber (heap (snd (createSession sameInstantEnv ''+911234567890'' emptyWorld)) 0) =
             Some ''+911234567890''"
    by (simp add: createSession_result n)
  have q: "''+911234567890'' \<noteq> []"
    by simp
  show ?thesis
    unfolding c updateSession_ok [OF p q]
    by (simp add: createSession_result n sameInstantEnv_def)
qed

text \<open>
  C5, amended. For every session with a phone number, \<open>updateSession\<close> succeeds,
  sets \<open>updatedAt\<close> to the clock's reading at the call and \<open>expiresAt\<close> to the
  next reading plus the session timeout. So \<open>updatedAt\<close> strictly increases when the
  clock has passed the old \<open>updatedAt\<close>, and \<open>expiresAt\<close> strictly increases when
  moreover the old \<open>expiresAt\<close> was the old \<open>updatedAt\<close> plus the timeout and
  the clock does not run backwards; within the same millisecond both stay as they are.
  Reading an unexpired session with \<open>getOrCreateSession\<close> refreshes the two fields
  from the clock in the same way.
\<close>

theorem C5_update_refreshes:
  assumes "phoneNumber (heap w r) = Some phone" and "phone \<noteq> []"
  shows "fst (updateSession e (Some r) w) = Inr r \<and>
         updatedAt (heap (snd (updateSession e (Some r) w)) r) = clock e (reads w) \<and>
         expiresAt (heap (snd (updateSession e (Some r) w)) r) =
           clock e (Suc (reads w)) + minutes (SESSION_TIMEOUT e) \<and>
         (updatedAt (heap w r) < clock e (reads w) \<longrightarrow>
            updatedAt (heap w r) < updatedAt (heap (snd (updateSession e (Some r) w)) r)) \<and>
         (updatedAt (heap w r) < clock e (reads w) \<and>
          clock e (reads w) \<le> clock e (Suc (reads w)) \<and>
          expiresAt (heap w r) = updatedAt (heap w r) + minutes (SESSION_TIMEOUT e) \<longrightarrow>
            expiresAt (heap w r) < expiresAt (heap (snd (updateSession e (Some r) w)) r)) \<and>
         (updatedAt (heap w r) = clock e (reads w) \<longrightarrow>
            updatedAt (heap (snd (updateSession e (Some r) w)) r) = updatedAt (heap w r)) \<and>
         (map_of (sessionStore w) phone = Some r \<and> \<not> expiresAt (heap w r) < clock e (reads w) \<longrightarrow>
            fst (getOrCreateSession e phone w) = Inr r \<and>
            expiresAt (heap (snd (getOrCreateSession e phone w)) r) =
              clock e (Suc (reads w)) + minutes (SESSION_TIMEOUT e) \<and>
            updatedAt (heap (snd (getOrCreateSession e phone w)) r) = clock e (Suc (Suc (reads w))))"
  by (simp add: updateSession_ok [OF assms] getOrCreateSession_existing lookupStore_own)

theorem C5_update_refreshes_witness:
  "phoneNumber (heap (exampleWorld ''IDLE'' (Some ''+911234567890'')) 0) = Some ''+911234567890'' \<and>
   ''+911234567890'' \<noteq> [] \<and>
   updatedAt (heap (exampleWorld ''IDLE'' (Some ''+911234567890'')) 0)
     < clock tickingEnv (reads (exampleWorld ''IDLE'' (Some ''+911234567890''))) \<and>
   updatedAt (heap (exampleWorld ''IDLE'' (Some ''+911234567890'')) 0)
     < updatedAt (heap (snd (updateSession tickingEnv (Some 0)
         (exampleWorld ''IDLE'' (Some ''+911234567890'')))) 0) \<and>
   expiresAt (heap (snd (updateSession tickingEnv (Some 0)
         (exampleWorld ''IDLE'' (Some ''+911234567890'')))) 0) = 1801001 \<and>
   map_of (sessionStore (exampleWorld ''IDLE'' (Some ''+911234567890''))) ''+911234567890'' = Some 0 \<and>
   \<not> expiresAt (heap (exampleWorld ''IDLE'' (Some ''+911234567890'')) 0)
       < clock tickingEnv (reads (exampleWorld ''IDLE'' (Some ''+911234567890''))) \<and>
   updatedAt (heap (snd (getOrCreateSession tickingEnv ''+911234567890''
         (exampleWorld ''IDLE'' (Some ''+911234567890'')))) 0) = 1002"
proof -
  have p: "phoneNumber (heap (exampleWorld ''IDLE'' (Some ''+911234567890'')) 0) =
             Some ''+911234567890''"
    by (simp add: example_defs)
  have q: "''+911234567890'' \<noteq> []"
    by simp
  have facts:
    "updatedAt (heap (exampleWorld ''IDLE'' (Some ''+911234567890'')) 0) = 10"
    "expiresAt (heap (exampleWorld ''IDLE'' (Some ''+911234567890'')) 0) = 1800000"
    "reads (exampleWorld ''IDLE'' (Some ''+911234567890'')) = 0"
    "clock tickingEnv 0 = 1000" "clock tickingEnv (Suc 0) = 1001"
    "clock tickingEnv (Suc (Suc 0)) = 1002"
    "minutes (SESSION_TIMEOUT tickingEnv) = 1800000"
    "map_of (sessionStore (exampleWorld ''IDLE'' (Some ''+911234567890''))) ''+911234567890'' = Some 0"
    by (simp_all add: example_defs minutes_def)
  show ?thesis
    using C5_update_refreshes [OF p q, of tickingEnv]
    by (simp add: facts p)
qed

text \<open>
  C7, as the claim states it, fails in one direction: \<open>updateSession\<close> also raises
  when the \<open>phoneNumber\<close> key is there and holds the empty string, because the guard
  \<open>!session.phoneNumber\<close> tests truthiness. Such a session is what
  \<open>getOrCreateSession('')\<close> creates, the phone number of a sender \<open>whatsapp:\<close>.
\<close>

theorem C7_empty_phone_counterexample:
  "phoneNumber (heap (snd (getOrCreateSession tickingEnv [] emptyWorld)) 0) = Some [] \<and>
   phoneNumber (heap (snd (getOrCreateSession tickingEnv [] emptyWorld)) 0) \<noteq> None \<and>
   updateSession tickingEnv (Some 0) (snd (getOrCreateSession tickingEnv [] emptyWorld)) =
     (Inl InvalidSession, snd (getOrCreateSession tickingEnv [] emptyWorld))"
proof -
  have m: "lookupStore emptyWorld [] = Missing"
    by (simp add: lookupStore_def objectPrototypeNames_def example_defs)
  have c: "snd (getOrCreateSession tickingEnv [] emptyWorld) =
             snd (createSession tickingEnv [] emptyWorld)"
    by (simp add: getOrCreateSession_missing [OF m])
  have n: "nextRef emptyWorld = 0"
    by (simp add: example_defs)
  have p: "phoneNumber (heap (snd (createSession tickingEnv [] emptyWorld)) 0) = Some []"
    by (simp add: createSession_result n)
  then have "updateSession tickingEnv (Some 0) (snd (createSession tickingEnv [] emptyWorld)) =
               (Inl InvalidSession, snd (createSession tickingEnv [] emptyWorld))"
    by (simp add: updateSession_fails)
  with p show ?thesis
    by (simp add: c)
qed

text \<open>
  C7, amended. \<open>updateSession\<close> raises the invalid-session error if and only if
  its argument is absent or the session's \<open>phoneNumber\<close> is falsy, that is missing
  or the empty string. The error is its result, no other error is possible, and when
  it is raised nothing has changed: neither the store nor any session.
\<close>

theorem C7_update_invalid_session:
  "(fst (updateSession e sess w) = Inl InvalidSession \<longleftrightarrow>
      sess = None \<or>
      (\<exists>r. sess = Some r \<and>
           (phoneNumber (heap w r) = None \<or> phoneNumber (heap w r) = Some []))) \<and>
   (\<forall>err. fst (updateSession e sess w) = Inl err \<longrightarrow>
      err = InvalidSession \<and> snd (updateSession e sess w) = w)"
proof (cases sess)
  case None
  then show ?thesis by (simp add: updateSession_def)
next
  case (Some r)
  from phoneNumber_cases [of w r] show ?thesis
  proof (elim disjE exE conjE)
    fix phone
    assume "phoneNumber (heap w r) = Some phone" and "phone \<noteq> []"
    then show ?thesis
      using Some by (simp add: updateSession_ok)
  next
    assume "phoneNumber (heap w r) = None"
    then show ?thesis
      using Some by (simp add: updateSession_fails)
  next
    assume "phoneNumber (heap w r) = Some []"
    then show ?thesis
      using Some by (simp add: updateSession_fails)
  qed
qed

theorem C7_update_invalid_session_witness:
  "fst (updateSession tickingEnv None emptyWorld) = Inl InvalidSession \<and>
   snd (updateSession tickingEnv None emptyWorld) = emptyWorld \<and>
   phoneNumber (heap (exampleWorld ''IDLE'' None) 0) = None \<and>
   fst (updateSession tickingEnv (Some 0) (exampleWorld ''IDLE'' None)) = Inl InvalidSession \<and>
   snd (updateSession tickingEnv (Some 0) (exampleWorld ''IDLE'' None)) = exampleWorld ''IDLE'' None \<and>
   fst (updateSession tickingEnv (Some 0) (exampleWorld ''IDLE'' (Some ''+911234567890''))) \<noteq>
     Inl InvalidSession"
proof -
  have a: "phoneNumber (heap (exampleWorld ''IDLE'' None) 0) = None"
    by (simp add: example_defs)
  have b: "phoneNumber (heap (exampleWorld ''IDLE'' (Some ''+911234567890'')) 0) =
             Some ''+911234567890''"
    by (simp add: example_defs)
  show ?thesis
    using a b
      C7_update_invalid_session [of tickingEnv None emptyWorld]
      C7_update_invalid_session [of tickingEnv "Some 0" "exampleWorld ''IDLE'' None"]
      C7_update_invalid_session [of tickingEnv "Some 0"
        "exampleWorld ''IDLE'' (Some ''+911234567890'')"]
    by simp
qed

section \<open>Sweeping expired sessions\<close>

lemma delete_middle:
  assumes "distinct (map fst (pre @ (k, v) # suf))"
  shows "AList.delete k (pre @ (k, v) # suf) = pre @ suf"
proof -
  from assms have "k \<notin> fst ` set pre" and "k \<notin> fst ` set suf"
    by auto
  then have "AList.delete k pre = pre" and "AList.delete k suf = suf"
    by simp_all
  then show ?thesis
    by (simp add: AList.delete_eq)
qed

lemma map_of_middle:
  assumes "distinct (map fst (pre @ (k, v) # suf))"
  shows "map_of (pre @ (k, v) # suf) k = Some v"
proof -
  from assms have "k \<notin> fst ` set pre"
    by auto
  then have "map_of pre k = None"
    by (simp add: map_of_eq_None_iff)
  then show ?thesis
    by (simp add: map_add_def)
qed

lemma sweepKeys_suffix:
  assumes "distinct (map fst (pre @ suf))"
  shows "sweepKeys now (map fst suf) c (w\<lparr>sessionStore := pre @ suf\<rparr>) =
           (Inr (c + length (filter (\<lambda>(k, r). expiresAt (heap w r) < now) suf)),
            w\<lparr>sessionStore := pre @ filter (\<lambda>(k, r). \<not> expiresAt (heap w r) < now) suf\<rparr>)"
  using assms
proof (induction suf arbitrary: pre c)
  case Nil
  then show ?case by simp
next
  case (Cons kv suf)
  obtain k r where kv: "kv = (k, r)"
    by (cases kv)
  from Cons.prems kv have d: "distinct (map fst (pre @ (k, r) # suf))"
    by simp
  show ?case
  proof (cases "expiresAt (heap w r) < now")
    case True
    from d have "distinct (map fst (pre @ suf))"
      by simp
    from Cons.IH [OF this, of "c + 1"] True show ?thesis
      by (simp add: kv map_of_middle [OF d] delete_middle [OF d] del: map_of_append)
  next
    case False
    from d have "distinct (map fst ((pre @ [(k, r)]) @ suf))"
      by simp
    from Cons.IH [OF this, of c] False show ?thesis
      by (simp add: kv map_of_middle [OF d] del: map_of_append)
  qed
qed

lemma cleanupExpiredSessions_result:
  assumes "distinct (map fst (sessionStore w))"
  shows "cleanupExpiredSessions e w =
           (Inr (length (filter (\<lambda>(k, r). expiresAt (heap w r) < clock e (reads w))
                   (sessionStore w))),
            w\<lparr>reads := Suc (reads w),
              sessionStore := filter (\<lambda>(k, r). \<not> expiresAt (heap w r) < clock e (reads w))
                   (sessionStore w)\<rparr>)"
proof -
  let ?w1 = "w\<lparr>reads := Suc (reads w)\<rparr>"
  from assms have "distinct (map fst ([] @ sessionStore w))"
    by simp
  from sweepKeys_suffix [OF this, of "clock e (reads w)" 0 ?w1]
  show ?thesis
    by (simp add: cleanupExpiredSessions_def moment_def)
qed



text \<open>
  The store has one entry per phone number, as the keys of a JavaScript object have;
  every operation keeps it so.
\<close>

lemma storeAssign_keys_distinct:
  assumes "distinct (map fst (sessionStore w))"
  shows "distinct (map fst (sessionStore (storeAssign phone r w)))"
  using assms by (simp add: storeAssign_def distinct_update)

lemma createSession_keys_distinct:
  assumes "distinct (map fst (sessionStore w))"
  shows "distinct (map fst (sessionStore (snd (createSession e phone w))))"
  using assms by (simp add: createSession_result storeAssign_keys_distinct)

lemma getOrCreateSession_keys_distinct:
  assumes "distinct (map fst (sessionStore w))"
  shows "distinct (map fst (sessionStore (snd (getOrCreateSession e phone w))))"
proof (cases "lookupStore w phone")
  case (Found r)
  with assms show ?thesis
    by (cases "expiresAt (heap w r) < clock e (reads w)")
      (simp_all add: getOrCreateSession_expired getOrCreateSession_existing
        createSession_keys_distinct storeAssign_keys_distinct)
next
  case Stray
  with assms show ?thesis
    by (simp add: getOrCreateSession_def)
next
  case Missing
  with assms show ?thesis
    by (simp add: getOrCreateSession_missing createSession_keys_distinct)
qed

lemma updateSession_keys_distinct:
  assumes "distinct (map fst (sessionStore w))"
  shows "distinct (map fst (sessionStore (snd (updateSession e sess w))))"
proof (cases sess)
  case None
  with assms show ?thesis
    by (simp add: updateSession_def)
next
  case (Some r)
  from phoneNumber_cases [of w r] assms show ?thesis
    by (auto simp add: Some updateSession_ok updateSession_fails storeAssign_keys_distinct)
qed

lemma cleanupExpiredSessions_keys_distinct:
  assumes "distinct (map fst (sessionStore w))"
  shows "distinct (map fst (sessionStore (snd (cleanupExpiredSessions e w))))"
  using assms by (simp add: cleanupExpiredSessions_result distinct_map_filter)




section \<open>The data bag of a session\<close>







end
